theory Spec2Isabelle
  imports Main "HOL-Library.AList"
begin

section \<open>The voice-call coordinator of \<^verbatim>\<open>src/hooks/useVoiceCall.ts\<close>\<close>

text \<open>
  The hook \<^verbatim>\<open>useVoiceCall(roomId, userId, isAnchor)\<close> keeps React state
  (\<^verbatim>\<open>isInCall\<close>, \<^verbatim>\<open>isMuted\<close>, \<^verbatim>\<open>localStream\<close>, \<^verbatim>\<open>peers\<close>,
  \<^verbatim>\<open>isConnecting\<close>, \<^verbatim>\<open>error\<close>) and two refs (\<^verbatim>\<open>remoteAudiosRef\<close>,
  \<^verbatim>\<open>signalingChannel\<close>). The model threads one record through every handler.

  Modelling decisions, all of them visible in the definitions below:
  \<^item> Every handler runs to completion before the next event is taken. The interleaving of
    two \<^verbatim>\<open>async\<close> handlers at an \<^verbatim>\<open>await\<close> is not modelled.
  \<^item> A \<^verbatim>\<open>useCallback\<close> function reads the state variables of the render that created
    it, and writes through the setters. \<^verbatim>\<open>handlePeerJoin\<close>, \<^verbatim>\<open>handleOffer\<close> and
    \<^verbatim>\<open>leaveCall\<close> are first given with what they read as a parameter (\<open>Closure\<close>; the
    names end in \<open>_c\<close>), so that they can be run with the variables of an older
    render than the state they write to. The definitions under the source's own names
    are the same functions for a render that has seen the state they are applied to;
    the lemmas \<open>handlePeerJoin_c_fresh\<close>, \<open>handleOffer_c_fresh\<close> and
    \<open>leaveCall_c_fresh\<close> say so. \<open>step\<close> and \<open>run\<close> use those: they are the executions
    in which the component re-renders, and the channel is subscribed again, between two
    events. The other handlers are given for such a render only.
  \<^item> The objects of the platform (\<^verbatim>\<open>RTCPeerConnection\<close>, \<^verbatim>\<open>MediaStream\<close>) live in
    stores; a reference is an index into the store. What the coordinator asks of a
    connection is recorded in the connection's record.
  \<^item> Whether a call into the platform throws is an input of the event
    (\<open>TransportOutcome\<close>, the result of \<^verbatim>\<open>getUserMedia\<close>).
  \<^item> \<^verbatim>\<open>setTimeout\<close> continuations are taken at once (the retry of an offer, so that no
    other event falls between an attempt and its retry) or are events of their own (the
    five-second disconnect check); durations are not modelled.
  \<^item> Console output, audio playback, the local monitor element \<^verbatim>\<open>localAudioRef\<close>,
    \<^verbatim>\<open>playRemoteAudio\<close>, \<^verbatim>\<open>getConnectionDiagnostics\<close> and \<^verbatim>\<open>testConnection\<close> do not
    touch the state above and are left out, and so are the callbacks
    \<^verbatim>\<open>oniceconnectionstatechange\<close> and \<^verbatim>\<open>onicegatheringstatechange\<close>, which log and
    at most call \<^verbatim>\<open>restartIce()\<close>.
  \<^item> The constructor of \<^verbatim>\<open>RTCPeerConnection\<close> and \<^verbatim>\<open>signalingChannel.current.send\<close>
    are taken not to throw. Every other call into the platform sits in a \<^verbatim>\<open>try\<close> of
    its handler, so the \<^verbatim>\<open>catch\<close> of \<^verbatim>\<open>handleSignalingMessage\<close>, the only place that
    would set \<^verbatim>\<open>error\<close> for a signaling message, is never entered.
\<close>

subsection \<open>Data\<close>

text \<open>\<^verbatim>\<open>SignalingMessage.type\<close>.\<close>

datatype SignalingType = Offer | Answer | IceCandidate | Join | Leave

text \<open>
  \<^verbatim>\<open>SignalingMessage.data\<close> has type \<^verbatim>\<open>any\<close>; the coordinator never inspects it and
  hands it to the platform as it came. Every value of this type is a JavaScript object,
  hence truthy.
\<close>

datatype payload = SessionDescription string | Candidate string | JoinData bool | EmptyObject

record SignalingMessage =
  msg_type :: SignalingType
  msg_data :: payload
  msg_from :: string
  msg_to :: "string option"
  room_id :: string

text \<open>
  A captured track. The constraints of \<^verbatim>\<open>getUserMedia\<close> ask for audio only, so every
  track of a local stream is an audio track and \<^verbatim>\<open>getAudioTracks()\<close> is the whole list.
  \<open>ended\<close> is \<^verbatim>\<open>readyState === 'ended'\<close>, which \<^verbatim>\<open>stop()\<close> sets.
\<close>

record MediaStreamTrack =
  enabled :: bool
  ended :: bool

type_synonym MediaStream = "MediaStreamTrack list"

datatype RTCPeerConnectionState =
  StNew | StConnecting | StConnected | StDisconnected | StFailed | StClosed

text \<open>
  An \<^verbatim>\<open>RTCPeerConnection\<close> as the coordinator sees it. \<open>remotePeer\<close> is the
  \<^verbatim>\<open>peerId\<close> captured by the callbacks that \<^verbatim>\<open>createPeerConnection\<close> registers;
  \<open>senders\<close> is the local stream whose tracks were added; \<open>addedIceCandidates\<close> lists
  the arguments of \<^verbatim>\<open>addIceCandidate\<close> in call order (a call that throws is caught and
  logged by the source, and is listed all the same); \<open>iceRestarts\<close> counts
  \<^verbatim>\<open>restartIce()\<close>.
\<close>

record RTCPeerConnection =
  remotePeer :: string
  senders :: "nat option"
  localDescription :: "payload option"
  remoteDescription :: "payload option"
  addedIceCandidates :: "payload list"
  connectionState :: RTCPeerConnectionState
  iceRestarts :: nat

text \<open>The interface \<^verbatim>\<open>PeerConnection\<close>; \<open>connection\<close> is a reference into the store.\<close>

record PeerConnection =
  peer_id :: string
  connection :: nat
  stream :: "string option"
  iceCandidatesQueue :: "payload list"

record HTMLAudioElement =
  srcObject :: "string option"

text \<open>The parameters of the hook.\<close>

record Props =
  roomId :: string
  userId :: string
  isAnchor :: bool

text \<open>
  The state of the hook. \<open>peers\<close> and \<open>remoteAudiosRef\<close> are JavaScript \<^verbatim>\<open>Map\<close>s:
  association lists in insertion order, written with \<open>AList.update\<close> (a new key goes to
  the end, an old key keeps its place) and \<open>AList.delete\<close>. \<open>signalingChannel\<close> says
  whether the ref holds a channel. \<open>sent\<close> lists what was handed to
  \<^verbatim>\<open>signalingChannel.current.send\<close>, oldest first.
\<close>

record VoiceCall =
  isInCall :: bool
  isMuted :: bool
  localStream :: "nat option"
  peers :: "(string \<times> PeerConnection) list"
  isConnecting :: bool
  error :: string
  remoteAudiosRef :: "(string \<times> HTMLAudioElement) list"
  signalingChannel :: bool
  connections :: "RTCPeerConnection list"
  streams :: "MediaStream list"
  sent :: "SignalingMessage list"

text \<open>
  What \<^verbatim>\<open>handlePeerJoin\<close>, \<^verbatim>\<open>handleOffer\<close> and \<^verbatim>\<open>leaveCall\<close> read of the
  state variables of their render: \<^verbatim>\<open>isInCall\<close>, \<^verbatim>\<open>localStream\<close> and \<^verbatim>\<open>peers\<close>.
  Of \<^verbatim>\<open>peers\<close> they read the keys (\<^verbatim>\<open>peers.has\<close>) and the connection of each
  entry (\<^verbatim>\<open>peer.connection.close()\<close>), which never change once an entry is made.
  \<open>closure s\<close> is what a render that has seen the state \<open>s\<close> hands to its callbacks.
\<close>

record Closure =
  isInCall_c :: bool
  localStream_c :: "nat option"
  peers_c :: "(string \<times> PeerConnection) list"

definition closure :: "VoiceCall \<Rightarrow> Closure" where
  "closure s = \<lparr> isInCall_c = isInCall s, localStream_c = localStream s, peers_c = peers s \<rparr>"

text \<open>
  What the platform answers while one signaling message is handled:
  \<open>createOffer n\<close> is the local description after \<^verbatim>\<open>createOffer\<close> and
  \<^verbatim>\<open>setLocalDescription\<close> of attempt \<open>n\<close> (\<open>None\<close>: one of them threw);
  \<open>setRemoteDescriptionOk\<close> says whether \<^verbatim>\<open>setRemoteDescription\<close> returned;
  \<open>createAnswer\<close> is the local description after \<^verbatim>\<open>createAnswer\<close> and
  \<^verbatim>\<open>setLocalDescription\<close> (\<open>None\<close>: one of them threw).
\<close>

record TransportOutcome =
  createOffer :: "nat \<Rightarrow> payload option"
  setRemoteDescriptionOk :: bool
  createAnswer :: "payload option"

subsection \<open>The state after mounting\<close>

text \<open>
  The effect that opens the channel returns early when \<^verbatim>\<open>roomId\<close> or \<^verbatim>\<open>userId\<close> is
  the empty string; otherwise the ref holds the channel.
\<close>

definition initialState :: "Props \<Rightarrow> VoiceCall" where
  "initialState P =
     \<lparr> isInCall = False, isMuted = False, localStream = None, peers = [],
       isConnecting = False, error = [], remoteAudiosRef = [],
       signalingChannel = (roomId P \<noteq> [] \<and> userId P \<noteq> []),
       connections = [], streams = [], sent = [] \<rparr>"

subsection \<open>Handlers\<close>

definition sendSignalingMessage ::
  "Props \<Rightarrow> SignalingType \<Rightarrow> payload \<Rightarrow> string option \<Rightarrow> VoiceCall \<Rightarrow> VoiceCall" where
  "sendSignalingMessage P t d target s =
     (if \<not> signalingChannel s then s
      else s\<lparr> sent := sent s @
             [\<lparr> msg_type = t, msg_data = d, msg_from = userId P, msg_to = target,
                room_id = roomId P \<rparr>] \<rparr>)"

text \<open>\<^verbatim>\<open>connection.close()\<close> on the connection behind a reference.\<close>

definition close :: "nat \<Rightarrow> RTCPeerConnection list \<Rightarrow> RTCPeerConnection list" where
  "close h cs = cs[h := (cs ! h)\<lparr> connectionState := StClosed \<rparr>]"

definition handlePeerLeave :: "string \<Rightarrow> VoiceCall \<Rightarrow> VoiceCall" where
  "handlePeerLeave peerId s =
     (let s1 = (case map_of (peers s) peerId of
                  Some peer \<Rightarrow>
                    s\<lparr> connections := close (connection peer) (connections s),
                       peers := AList.delete peerId (peers s) \<rparr>
                | None \<Rightarrow> s)
      in s1\<lparr> remoteAudiosRef := AList.delete peerId (remoteAudiosRef s1) \<rparr>)"

text \<open>
  \<^verbatim>\<open>createPeerConnection\<close>: a fresh connection at the end of the store, with the
  tracks of the local stream of the closure when there is one. The callbacks it
  registers are the events \<open>OnIceCandidate\<close>, \<open>OnTrack\<close>,
  \<open>OnConnectionStateChange\<close> and \<open>DisconnectTimer\<close> below. The result is the
  reference and the new state.
\<close>

definition createPeerConnection_c :: "Closure \<Rightarrow> string \<Rightarrow> VoiceCall \<Rightarrow> nat \<times> VoiceCall" where
  "createPeerConnection_c c peerId s =
     (length (connections s),
      s\<lparr> connections := connections s @
            [\<lparr> remotePeer = peerId, senders = localStream_c c, localDescription = None,
               remoteDescription = None, addedIceCandidates = [],
               connectionState = StNew, iceRestarts = 0 \<rparr>] \<rparr>)"

text \<open>The same for a render that has seen \<open>s\<close>.\<close>

definition createPeerConnection :: "string \<Rightarrow> VoiceCall \<Rightarrow> nat \<times> VoiceCall" where
  "createPeerConnection peerId s =
     (length (connections s),
      s\<lparr> connections := connections s @
            [\<lparr> remotePeer = peerId, senders = localStream s, localDescription = None,
               remoteDescription = None, addedIceCandidates = [],
               connectionState = StNew, iceRestarts = 0 \<rparr>] \<rparr>)"

definition setLocalDescription :: "nat \<Rightarrow> payload \<Rightarrow> VoiceCall \<Rightarrow> VoiceCall" where
  "setLocalDescription h d s =
     s\<lparr> connections := (connections s)[h := (connections s ! h)\<lparr> localDescription := Some d \<rparr>] \<rparr>"

definition setRemoteDescription :: "nat \<Rightarrow> payload \<Rightarrow> VoiceCall \<Rightarrow> VoiceCall" where
  "setRemoteDescription h d s =
     s\<lparr> connections := (connections s)[h := (connections s ! h)\<lparr> remoteDescription := Some d \<rparr>] \<rparr>"

definition addIceCandidate :: "nat \<Rightarrow> payload \<Rightarrow> VoiceCall \<Rightarrow> VoiceCall" where
  "addIceCandidate h c s =
     s\<lparr> connections := (connections s)[h := (connections s ! h)
            \<lparr> addedIceCandidates := addedIceCandidates (connections s ! h) @ [c] \<rparr>] \<rparr>"

text \<open>
  The loop \<^verbatim>\<open>while (queue.length > 0) { c = queue.shift(); if (c) addIceCandidate(c) }\<close>
  on the queue of the peer's entry. The test \<^verbatim>\<open>if (c)\<close> holds for every payload. A
  peer that is not in the map has nothing to drain.
\<close>

fun drainLoop :: "nat \<Rightarrow> payload list \<Rightarrow> VoiceCall \<Rightarrow> VoiceCall" where
  "drainLoop h [] s = s"
| "drainLoop h (c # q) s = drainLoop h q (addIceCandidate h c s)"

definition drainQueue :: "string \<Rightarrow> VoiceCall \<Rightarrow> VoiceCall" where
  "drainQueue peerId s =
     (case map_of (peers s) peerId of
        None \<Rightarrow> s
      | Some peer \<Rightarrow>
          (drainLoop (connection peer) (iceCandidatesQueue peer) s)
            \<lparr> peers := AList.update peerId (peer\<lparr> iceCandidatesQueue := [] \<rparr>) (peers s) \<rparr>)"

text \<open>
  \<^verbatim>\<open>handlePeerJoin(peerId, retryCount = 0)\<close>. The guard \<^verbatim>\<open>peers.has(peerId)\<close> and the
  test \<^verbatim>\<open>isAnchor && localStream\<close> read the closure; \<^verbatim>\<open>setPeers(prev => new
  Map(prev).set(peerId, newPeer))\<close> writes to the current map, where the entry of a key
  that is there is replaced. The retry runs after \<^verbatim>\<open>handlePeerLeave\<close> through
  \<^verbatim>\<open>setTimeout(..., 1000)\<close> and calls the \<^verbatim>\<open>handlePeerJoin\<close> of the same closure; the
  model takes it at once.
\<close>

function handlePeerJoin_c ::
  "Closure \<Rightarrow> Props \<Rightarrow> TransportOutcome \<Rightarrow> string \<Rightarrow> nat \<Rightarrow> VoiceCall \<Rightarrow> VoiceCall" where
  "handlePeerJoin_c c P env peerId retryCount s =
     (if map_of (peers_c c) peerId \<noteq> None then s
      else
        let h = fst (createPeerConnection_c c peerId s);
            s1 = snd (createPeerConnection_c c peerId s);
            newPeer = \<lparr> peer_id = peerId, connection = h, stream = None,
                        iceCandidatesQueue = [] \<rparr>;
            s2 = s1\<lparr> peers := AList.update peerId newPeer (peers s1) \<rparr>
        in if isAnchor P \<and> localStream_c c \<noteq> None then
             (case createOffer env retryCount of
                Some d \<Rightarrow>
                  sendSignalingMessage P Offer d (Some peerId) (setLocalDescription h d s2)
              | None \<Rightarrow>
                  if retryCount < 2
                  then handlePeerJoin_c c P env peerId (retryCount + 1) (handlePeerLeave peerId s2)
                  else handlePeerLeave peerId s2)
           else s2)"
  by pat_completeness auto
termination
  by (relation "measure (\<lambda>(c, P, env, peerId, retryCount, s). 3 - retryCount)") auto

declare handlePeerJoin_c.simps [simp del]

text \<open>
  \<^verbatim>\<open>handlePeerJoin\<close> of a render that has seen \<open>s\<close>: the guard and the test read
  \<open>s\<close> itself.
\<close>

function handlePeerJoin ::
  "Props \<Rightarrow> TransportOutcome \<Rightarrow> string \<Rightarrow> nat \<Rightarrow> VoiceCall \<Rightarrow> VoiceCall" where
  "handlePeerJoin P env peerId retryCount s =
     (if map_of (peers s) peerId \<noteq> None then s
      else
        let h = fst (createPeerConnection peerId s);
            s1 = snd (createPeerConnection peerId s);
            newPeer = \<lparr> peer_id = peerId, connection = h, stream = None,
                        iceCandidatesQueue = [] \<rparr>;
            s2 = s1\<lparr> peers := AList.update peerId newPeer (peers s1) \<rparr>
        in if isAnchor P \<and> localStream s \<noteq> None then
             (case createOffer env retryCount of
                Some d \<Rightarrow>
                  sendSignalingMessage P Offer d (Some peerId) (setLocalDescription h d s2)
              | None \<Rightarrow>
                  if retryCount < 2
                  then handlePeerJoin P env peerId (retryCount + 1) (handlePeerLeave peerId s2)
                  else handlePeerLeave peerId s2)
           else s2)"
  by pat_completeness auto
termination
  by (relation "measure (\<lambda>(P, env, peerId, retryCount, s). 3 - retryCount)") auto

declare handlePeerJoin.simps [simp del]

text \<open>
  \<^verbatim>\<open>handleOffer(peerId, offer)\<close>. The guard reads the closure. The loop over
  \<^verbatim>\<open>newPeer.iceCandidatesQueue\<close> runs on the entry that was just written.
\<close>

definition handleOffer_c ::
  "Closure \<Rightarrow> Props \<Rightarrow> TransportOutcome \<Rightarrow> string \<Rightarrow> payload \<Rightarrow> VoiceCall \<Rightarrow> VoiceCall" where
  "handleOffer_c c P env peerId d s =
     (if map_of (peers_c c) peerId \<noteq> None then s
      else
        let h = fst (createPeerConnection_c c peerId s);
            s1 = snd (createPeerConnection_c c peerId s);
            newPeer = \<lparr> peer_id = peerId, connection = h, stream = None,
                        iceCandidatesQueue = [] \<rparr>;
            s2 = s1\<lparr> peers := AList.update peerId newPeer (peers s1) \<rparr>
        in if \<not> setRemoteDescriptionOk env then handlePeerLeave peerId s2
           else
             let s3 = drainQueue peerId (setRemoteDescription h d s2)
             in (case createAnswer env of
                   None \<Rightarrow> handlePeerLeave peerId s3
                 | Some a \<Rightarrow>
                     sendSignalingMessage P Answer a (Some peerId)
                       (setLocalDescription h a s3)))"

text \<open>\<^verbatim>\<open>handleOffer\<close> of a render that has seen \<open>s\<close>.\<close>

definition handleOffer ::
  "Props \<Rightarrow> TransportOutcome \<Rightarrow> string \<Rightarrow> payload \<Rightarrow> VoiceCall \<Rightarrow> VoiceCall" where
  "handleOffer P env peerId d s =
     (if map_of (peers s) peerId \<noteq> None then s
      else
        let h = fst (createPeerConnection peerId s);
            s1 = snd (createPeerConnection peerId s);
            newPeer = \<lparr> peer_id = peerId, connection = h, stream = None,
                        iceCandidatesQueue = [] \<rparr>;
            s2 = s1\<lparr> peers := AList.update peerId newPeer (peers s1) \<rparr>
        in if \<not> setRemoteDescriptionOk env then handlePeerLeave peerId s2
           else
             let s3 = drainQueue peerId (setRemoteDescription h d s2)
             in (case createAnswer env of
                   None \<Rightarrow> handlePeerLeave peerId s3
                 | Some a \<Rightarrow>
                     sendSignalingMessage P Answer a (Some peerId)
                       (setLocalDescription h a s3)))"

definition handleAnswer :: "TransportOutcome \<Rightarrow> string \<Rightarrow> payload \<Rightarrow> VoiceCall \<Rightarrow> VoiceCall" where
  "handleAnswer env peerId d s =
     (case map_of (peers s) peerId of
        None \<Rightarrow> s
      | Some peer \<Rightarrow>
          if \<not> setRemoteDescriptionOk env then handlePeerLeave peerId s
          else drainQueue peerId (setRemoteDescription (connection peer) d s))"

definition handleIceCandidate :: "string \<Rightarrow> payload \<Rightarrow> VoiceCall \<Rightarrow> VoiceCall" where
  "handleIceCandidate peerId c s =
     (case map_of (peers s) peerId of
        None \<Rightarrow> s
      | Some peer \<Rightarrow>
          if remoteDescription (connections s ! connection peer) \<noteq> None
          then addIceCandidate (connection peer) c s
          else s\<lparr> peers := AList.update peerId
                    (peer\<lparr> iceCandidatesQueue := iceCandidatesQueue peer @ [c] \<rparr>) (peers s) \<rparr>)"

definition handleSignalingMessage ::
  "Props \<Rightarrow> TransportOutcome \<Rightarrow> SignalingMessage \<Rightarrow> VoiceCall \<Rightarrow> VoiceCall" where
  "handleSignalingMessage P env message s =
     (if msg_from message = userId P then s
      else (case msg_type message of
              Join \<Rightarrow> handlePeerJoin P env (msg_from message) 0 s
            | Offer \<Rightarrow> handleOffer P env (msg_from message) (msg_data message) s
            | Answer \<Rightarrow> handleAnswer env (msg_from message) (msg_data message) s
            | IceCandidate \<Rightarrow> handleIceCandidate (msg_from message) (msg_data message) s
            | Leave \<Rightarrow> handlePeerLeave (msg_from message) s))"

subsection \<open>The operations the hook returns\<close>

text \<open>
  \<^verbatim>\<open>joinCall\<close>; the argument is what \<^verbatim>\<open>getUserMedia\<close> gives when it is called:
  \<open>None\<close> when the promise rejects, the tracks of the new stream otherwise. The message
  of the \<^verbatim>\<open>else\<close> branch of the \<^verbatim>\<open>catch\<close> needs a throw on the audience path, where
  nothing modelled here throws.
\<close>

definition joinCall :: "Props \<Rightarrow> MediaStream option \<Rightarrow> VoiceCall \<Rightarrow> VoiceCall" where
  "joinCall P getUserMedia s =
     (if isInCall s \<or> isConnecting s then s
      else
        let s1 = s\<lparr> isConnecting := True, error := [] \<rparr>
        in if isAnchor P then
             (case getUserMedia of
                None \<Rightarrow>
                  s1\<lparr> error := ''Failed to access microphone. Please check your permissions.'',
                      isConnecting := False \<rparr>
              | Some tracks \<Rightarrow>
                  (sendSignalingMessage P Join (JoinData (isAnchor P)) None
                     (s1\<lparr> streams := streams s1 @ [tracks],
                         localStream := Some (length (streams s1)),
                         isInCall := True \<rparr>))
                    \<lparr> isConnecting := False \<rparr>)
           else
             (sendSignalingMessage P Join (JoinData (isAnchor P)) None
                (s1\<lparr> isInCall := True \<rparr>))
               \<lparr> isConnecting := False \<rparr>)"

text \<open>
  \<^verbatim>\<open>leaveCall\<close>. The test \<^verbatim>\<open>!isInCall\<close>, the map whose connections are closed and
  the stream whose tracks are stopped are those of the closure; \<^verbatim>\<open>setPeers(new Map())\<close>,
  \<^verbatim>\<open>setLocalStream(null)\<close> (called only when the closure has a stream) and the other
  setters write to the current state, and \<^verbatim>\<open>remoteAudiosRef\<close> is a ref.
\<close>

definition leaveCall_c :: "Closure \<Rightarrow> Props \<Rightarrow> VoiceCall \<Rightarrow> VoiceCall" where
  "leaveCall_c c P s =
     (if \<not> isInCall_c c then s
      else
        let s1 = sendSignalingMessage P Leave EmptyObject None s;
            s2 = s1\<lparr> connections := fold close (map (connection \<circ> snd) (peers_c c)) (connections s1),
                     peers := [] \<rparr>;
            s3 = (case localStream_c c of
                    Some l \<Rightarrow>
                      s2\<lparr> streams := (streams s2)[l := map (\<lambda>t. t\<lparr> ended := True \<rparr>) (streams s2 ! l)],
                          localStream := None \<rparr>
                  | None \<Rightarrow> s2);
            s4 = s3\<lparr> remoteAudiosRef := [] \<rparr>
        in s4\<lparr> isInCall := False, isMuted := False \<rparr>)"

text \<open>
  The cleanup \<^verbatim>\<open>useEffect(() => { return () => { leaveCall(); }; }, [])\<close>, commented
  \<^verbatim>\<open>Cleanup on unmount\<close>. With the empty dependency list the effect runs once, after
  the first render, so the \<^verbatim>\<open>leaveCall\<close> that the cleanup calls at unmount is the one
  of the first render, whose state variables are the initial ones.
\<close>

definition unmount :: "Props \<Rightarrow> VoiceCall \<Rightarrow> VoiceCall" where
  "unmount P s = leaveCall_c (closure (initialState P)) P s"

text \<open>\<^verbatim>\<open>leaveCall\<close> of a render that has seen \<open>s\<close>.\<close>

definition leaveCall :: "Props \<Rightarrow> VoiceCall \<Rightarrow> VoiceCall" where
  "leaveCall P s =
     (if \<not> isInCall s then s
      else
        let s1 = sendSignalingMessage P Leave EmptyObject None s;
            s2 = s1\<lparr> connections := fold close (map (connection \<circ> snd) (peers s1)) (connections s1),
                     peers := [] \<rparr>;
            s3 = (case localStream s2 of
                    Some l \<Rightarrow>
                      s2\<lparr> streams := (streams s2)[l := map (\<lambda>t. t\<lparr> ended := True \<rparr>) (streams s2 ! l)],
                          localStream := None \<rparr>
                  | None \<Rightarrow> s2);
            s4 = s3\<lparr> remoteAudiosRef := [] \<rparr>
        in s4\<lparr> isInCall := False, isMuted := False \<rparr>)"

text \<open>
  \<^verbatim>\<open>toggleMute\<close>: the first audio track of the local stream, when there is one, has its
  \<^verbatim>\<open>enabled\<close> flag negated, and \<^verbatim>\<open>isMuted\<close> becomes the negation of the new flag.
\<close>

definition toggleMute :: "Props \<Rightarrow> VoiceCall \<Rightarrow> VoiceCall" where
  "toggleMute P s =
     (case localStream s of
        None \<Rightarrow> s
      | Some l \<Rightarrow>
          if \<not> isAnchor P then s
          else (case streams s ! l of
                  [] \<Rightarrow> s
                | audioTrack # rest \<Rightarrow>
                    s\<lparr> streams := (streams s)[l := audioTrack\<lparr> enabled := \<not> enabled audioTrack \<rparr> # rest],
                       isMuted := enabled audioTrack \<rparr>))"

text \<open>\<^verbatim>\<open>connectedPeers: Array.from(peers.keys())\<close>.\<close>

definition connectedPeers :: "VoiceCall \<Rightarrow> string list" where
  "connectedPeers s = map fst (peers s)"

subsection \<open>Callbacks of a connection\<close>

text \<open>
  A connection that is not in the store, or on which \<^verbatim>\<open>close()\<close> was called, fires no
  event; the platform never reports the state \<^verbatim>\<open>closed\<close> through an event.
\<close>

definition fires :: "nat \<Rightarrow> VoiceCall \<Rightarrow> bool" where
  "fires h s = (h < length (connections s) \<and> connectionState (connections s ! h) \<noteq> StClosed)"

text \<open>\<^verbatim>\<open>connection.onicecandidate\<close>; \<open>None\<close> is the event whose candidate is null.\<close>

definition onicecandidate :: "Props \<Rightarrow> nat \<Rightarrow> payload option \<Rightarrow> VoiceCall \<Rightarrow> VoiceCall" where
  "onicecandidate P h candidate s =
     (case candidate of
        None \<Rightarrow> s
      | Some c \<Rightarrow> sendSignalingMessage P IceCandidate c (Some (remotePeer (connections s ! h))) s)"

text \<open>
  \<^verbatim>\<open>connection.ontrack\<close>: the audio element of the peer is created once and bound to the
  stream, and the peer's entry, when there is one, gets the stream.
\<close>

definition ontrack :: "nat \<Rightarrow> string \<Rightarrow> VoiceCall \<Rightarrow> VoiceCall" where
  "ontrack h remoteStream s =
     (let peerId = remotePeer (connections s ! h);
          audioElement = (case map_of (remoteAudiosRef s) peerId of
                            None \<Rightarrow> \<lparr> srcObject = None \<rparr>
                          | Some a \<Rightarrow> a);
          s1 = s\<lparr> remoteAudiosRef :=
                    AList.update peerId (audioElement\<lparr> srcObject := Some remoteStream \<rparr>)
                      (remoteAudiosRef s) \<rparr>
      in (case map_of (peers s1) peerId of
            Some peer \<Rightarrow>
              s1\<lparr> peers := AList.update peerId (peer\<lparr> stream := Some remoteStream \<rparr>) (peers s1) \<rparr>
          | None \<Rightarrow> s1))"

text \<open>
  \<^verbatim>\<open>connection.onconnectionstatechange\<close>, after the platform has moved the connection to
  state \<open>st\<close>. \<open>hasRestartIce\<close> is the test \<^verbatim>\<open>if (connection.restartIce)\<close>. On
  \<^verbatim>\<open>disconnected\<close> the source only arms the timer.
\<close>

definition onconnectionstatechange ::
  "nat \<Rightarrow> RTCPeerConnectionState \<Rightarrow> bool \<Rightarrow> VoiceCall \<Rightarrow> VoiceCall" where
  "onconnectionstatechange h st hasRestartIce s =
     (let s1 = s\<lparr> connections := (connections s)[h := (connections s ! h)\<lparr> connectionState := st \<rparr>] \<rparr>
      in if st = StFailed then
           (if hasRestartIce
            then s1\<lparr> connections := (connections s1)[h := (connections s1 ! h)
                       \<lparr> iceRestarts := iceRestarts (connections s1 ! h) + 1 \<rparr>] \<rparr>
            else handlePeerLeave (remotePeer (connections s1 ! h)) s1)
         else s1)"

text \<open>The body of the timer armed on \<^verbatim>\<open>disconnected\<close>.\<close>

definition disconnectTimer :: "nat \<Rightarrow> VoiceCall \<Rightarrow> VoiceCall" where
  "disconnectTimer h s =
     (if connectionState (connections s ! h) = StDisconnected
      then handlePeerLeave (remotePeer (connections s ! h)) s
      else s)"

subsection \<open>Executions\<close>

datatype Event =
    Signaling SignalingMessage TransportOutcome
  | JoinCall "MediaStream option"
  | LeaveCall
  | ToggleMute
  | OnIceCandidate nat "payload option"
  | OnTrack nat string
  | OnConnectionStateChange nat RTCPeerConnectionState bool
  | DisconnectTimer nat

text \<open>
  One event, handled by the callbacks of a render that has seen the state. A signaling
  message reaches the handler only through the channel; a callback runs only on a
  connection that fires.
\<close>

fun step :: "Props \<Rightarrow> Event \<Rightarrow> VoiceCall \<Rightarrow> VoiceCall" where
  "step P (Signaling message env) s =
     (if signalingChannel s then handleSignalingMessage P env message s else s)"
| "step P (JoinCall getUserMedia) s = joinCall P getUserMedia s"
| "step P LeaveCall s = leaveCall P s"
| "step P ToggleMute s = toggleMute P s"
| "step P (OnIceCandidate h candidate) s =
     (if fires h s then onicecandidate P h candidate s else s)"
| "step P (OnTrack h remoteStream) s =
     (if fires h s then ontrack h remoteStream s else s)"
| "step P (OnConnectionStateChange h st hasRestartIce) s =
     (if fires h s \<and> st \<noteq> StClosed then onconnectionstatechange h st hasRestartIce s else s)"
| "step P (DisconnectTimer h) s =
     (if h < length (connections s) then disconnectTimer h s else s)"

primrec run :: "Props \<Rightarrow> Event list \<Rightarrow> VoiceCall \<Rightarrow> VoiceCall" where
  "run P [] s = s"
| "run P (e # es) s = run P es (step P e s)"

section \<open>Invariants of the coordinator\<close>

text \<open>
  The first lines of \<^verbatim>\<open>handlePeerJoin\<close> and \<^verbatim>\<open>handleOffer\<close> are the same: a
  fresh connection at the end of the store and a fresh entry for the peer that refers to
  it. The lemmas speak of them through these three names.
\<close>

definition freshConnection :: "string \<Rightarrow> nat option \<Rightarrow> RTCPeerConnection" where
  "freshConnection p l = \<lparr> remotePeer = p, senders = l, localDescription = None,
               remoteDescription = None, addedIceCandidates = [],
               connectionState = StNew, iceRestarts = 0 \<rparr>"

definition freshPeer :: "string \<Rightarrow> nat \<Rightarrow> PeerConnection" where
  "freshPeer p h = \<lparr> peer_id = p, connection = h, stream = None, iceCandidatesQueue = [] \<rparr>"

definition newSession :: "string \<Rightarrow> VoiceCall \<Rightarrow> VoiceCall" where
  "newSession p s = s\<lparr> connections := connections s @ [freshConnection p (localStream s)],
                        peers := AList.update p (freshPeer p (length (connections s))) (peers s) \<rparr>"

text \<open>A connection that was opened for a peer and closed again without any other use.\<close>

definition abandoned :: "string \<Rightarrow> nat option \<Rightarrow> RTCPeerConnection" where
  "abandoned p l = (freshConnection p l)\<lparr> connectionState := StClosed \<rparr>"

text \<open>
  \<open>linked\<close>: every entry of \<^verbatim>\<open>peers\<close> refers to a connection of the store that was
  created for that peer and is not closed.
\<close>

definition linked :: "(string \<times> PeerConnection) list \<Rightarrow> RTCPeerConnection list \<Rightarrow> bool" where
  "linked ps cs \<longleftrightarrow>
     (\<forall>p pc. map_of ps p = Some pc \<longrightarrow>
        connection pc < length cs
        \<and> remotePeer (cs ! connection pc) = p
        \<and> connectionState (cs ! connection pc) \<noteq> StClosed)"

text \<open>
  \<open>flushed\<close>: an entry whose connection has a remote description has an empty
  candidate queue.
\<close>

definition flushed :: "(string \<times> PeerConnection) list \<Rightarrow> RTCPeerConnection list \<Rightarrow> bool" where
  "flushed ps cs \<longleftrightarrow>
     (\<forall>p pc. map_of ps p = Some pc \<longrightarrow>
        remoteDescription (cs ! connection pc) \<noteq> None \<longrightarrow> iceCandidatesQueue pc = [])"

text \<open>
  The invariant of the reachable states: the two above, distinct keys in
  \<^verbatim>\<open>peers\<close>, and a local stream that is in the store.
\<close>

definition inv :: "VoiceCall \<Rightarrow> bool" where
  "inv s \<longleftrightarrow> linked (peers s) (connections s)
     \<and> flushed (peers s) (connections s) \<and> distinct (map fst (peers s))
     \<and> (\<forall>l. localStream s = Some l \<longrightarrow> l < length (streams s))"

section \<open>Example inputs\<close>

text \<open>
  An anchor and an audience member of room \<^verbatim>\<open>r1\<close>, a platform on which every call
  returns and one on which every call throws, a message of the room, and a captured
  stream with one live track.
\<close>

definition exAnchor :: Props where
  "exAnchor = \<lparr> roomId = ''r1'', userId = ''alice'', isAnchor = True \<rparr>"

definition exAudience :: Props where
  "exAudience = \<lparr> roomId = ''r1'', userId = ''bob'', isAnchor = False \<rparr>"

definition exSucceeds :: TransportOutcome where
  "exSucceeds = \<lparr> createOffer = (\<lambda>n. Some (SessionDescription ''offer'')),
                  setRemoteDescriptionOk = True,
                  createAnswer = Some (SessionDescription ''answer'') \<rparr>"

definition exFails :: TransportOutcome where
  "exFails = \<lparr> createOffer = (\<lambda>n. None), setRemoteDescriptionOk = False, createAnswer = None \<rparr>"

definition exMessage :: "SignalingType \<Rightarrow> payload \<Rightarrow> string \<Rightarrow> string option \<Rightarrow> SignalingMessage" where
  "exMessage t d sender target =
     \<lparr> msg_type = t, msg_data = d, msg_from = sender, msg_to = target, room_id = ''r1'' \<rparr>"

definition exMicrophone :: MediaStream where
  "exMicrophone = [\<lparr> enabled = True, ended = False \<rparr>]"

text \<open>
  An anchor that joined the call, saw \<^verbatim>\<open>bob\<close> join, and received two candidates
  from him before his answer; and the same with the answer after them.
\<close>

definition exQueueing :: "Event list" where
  "exQueueing =
     [JoinCall (Some exMicrophone),
      Signaling (exMessage Join (JoinData False) ''bob'' None) exSucceeds,
      Signaling (exMessage IceCandidate (Candidate ''c1'') ''bob'' (Some ''alice'')) exSucceeds,
      Signaling (exMessage IceCandidate (Candidate ''c2'') ''bob'' (Some ''alice'')) exSucceeds]"

definition exAnswered :: "Event list" where
  "exAnswered = exQueueing @
     [Signaling (exMessage Answer (SessionDescription ''a'') ''bob'' (Some ''alice'')) exSucceeds]"

text \<open>
  A platform on which the first \<open>k\<close> attempts to create an offer throw, and an anchor
  that has just joined the call.
\<close>

definition exFailsFirst :: "nat \<Rightarrow> TransportOutcome" where
  "exFailsFirst k = \<lparr> createOffer = (\<lambda>n. if n < k then None else Some (SessionDescription ''offer'')),
                       setRemoteDescriptionOk = True,
                       createAnswer = Some (SessionDescription ''answer'') \<rparr>"

definition exInCall :: VoiceCall where
  "exInCall = run exAnchor [JoinCall (Some exMicrophone)] (initialState exAnchor)"

text \<open>An audience member that started listening and saw the anchor \<^verbatim>\<open>alice\<close> join.\<close>

definition exListening :: "Event list" where
  "exListening =
     [JoinCall None,
      Signaling (exMessage Join (JoinData True) ''alice'' None) exSucceeds]"

text \<open>
  The audience member \<^verbatim>\<open>bob\<close> whose hook has not re-rendered since it mounted: the
  state variables its callbacks read, the state after those callbacks have handled the
  \<^verbatim>\<open>join\<close> of \<^verbatim>\<open>alice\<close>, and the state after they have handled her \<^verbatim>\<open>offer\<close> as
  well. The last one is the same after \<^verbatim>\<open>bob\<close> has started listening, with the
  callbacks of the render that followed \<^verbatim>\<open>joinCall\<close>.
\<close>

definition exStale :: Closure where
  "exStale = closure (initialState exAudience)"

definition exJoined :: VoiceCall where
  "exJoined = handlePeerJoin_c exStale exAudience exSucceeds ''alice'' 0 (initialState exAudience)"

definition exDuplicated :: VoiceCall where
  "exDuplicated = handleOffer_c exStale exAudience exSucceeds ''alice'' (SessionDescription ''o'') exJoined"

definition exListeningStale :: VoiceCall where
  "exListeningStale =
     handleOffer_c (closure (joinCall exAudience None (initialState exAudience))) exAudience exSucceeds
       ''alice'' (SessionDescription ''o'')
       (handlePeerJoin_c (closure (joinCall exAudience None (initialState exAudience))) exAudience
          exSucceeds ''alice'' 0 (joinCall exAudience None (initialState exAudience)))"

section \<open>Lemmas\<close>

lemma delete_absent: "map_of al k = None \<Longrightarrow> AList.delete k al = al"
  by (induction al) auto

lemma length_close [simp]: "length (close h cs) = length cs"
  by (simp add: close_def)


subsection \<open>closing one session\<close>



lemma peers_handlePeerLeave [simp]: "peers (handlePeerLeave p s) = AList.delete p (peers s)"
  by (simp add: handlePeerLeave_def Let_def delete_absent split: option.split)


lemma other_handlePeerLeave [simp]:
  "sent (handlePeerLeave p s) = sent s"
  "streams (handlePeerLeave p s) = streams s"
  "localStream (handlePeerLeave p s) = localStream s"
  "error (handlePeerLeave p s) = error s"
  "isInCall (handlePeerLeave p s) = isInCall s"
  "isMuted (handlePeerLeave p s) = isMuted s"
  "isConnecting (handlePeerLeave p s) = isConnecting s"
  "signalingChannel (handlePeerLeave p s) = signalingChannel s"
  "remoteAudiosRef (handlePeerLeave p s) = AList.delete p (remoteAudiosRef s)"
  by (simp_all add: handlePeerLeave_def Let_def split: option.split)


lemma inv_send [simp]: "inv (sendSignalingMessage P t d target s) = inv s"
  by (simp add: inv_def sendSignalingMessage_def)


subsection \<open>opening a session\<close>

lemma fst_createPeerConnection: "fst (createPeerConnection p s) = length (connections s)"
  by (simp add: createPeerConnection_def)

lemma newSession_eq:
  "(snd (createPeerConnection p s))\<lparr> peers := AList.update p
       \<lparr> peer_id = p, connection = length (connections s), stream = None,
         iceCandidatesQueue = [] \<rparr> (peers (snd (createPeerConnection p s))) \<rparr> = newSession p s"
  by (simp add: createPeerConnection_def newSession_def freshConnection_def freshPeer_def)




subsection \<open>updating a connection or an entry in place\<close>






subsection \<open>the drain loop\<close>

lemma drainLoop_eq:
  "drainLoop h q s =
     s\<lparr> connections := (connections s)[h := (connections s ! h)
           \<lparr> addedIceCandidates := addedIceCandidates (connections s ! h) @ q \<rparr>] \<rparr>"
proof (induction q arbitrary: s)
  case Nil
  show ?case by simp
next
  case (Cons c q)
  show ?case
    by (cases "h < length (connections s)")
       (simp_all add: Cons addIceCandidate_def list_update_beyond)
qed





subsection \<open>handlers keep the invariant\<close>





lemma handlePeerJoin_unfold:
  "handlePeerJoin P env p n s =
     (if map_of (peers s) p \<noteq> None then s
      else if isAnchor P \<and> localStream s \<noteq> None then
             (case createOffer env n of
                Some d \<Rightarrow> sendSignalingMessage P Offer d (Some p)
                            (setLocalDescription (length (connections s)) d (newSession p s))
              | None \<Rightarrow> if n < 2 then handlePeerJoin P env p (n + 1) (handlePeerLeave p (newSession p s))
                        else handlePeerLeave p (newSession p s))
           else newSession p s)"
  by (subst handlePeerJoin.simps)
     (auto simp: Let_def fst_createPeerConnection newSession_eq split: option.split)


subsection \<open>closing every session\<close>

lemma length_fold_close [simp]: "length (fold close hs cs) = length cs"
  by (induction hs arbitrary: cs) simp_all















subsection \<open>a session opened and abandoned\<close>

lemma delete_update_absent: "map_of al k = None \<Longrightarrow> AList.delete k (AList.update k v al) = al"
  by (simp add: AList.delete_update_same delete_absent)

lemma abandon_newSession:
  assumes "map_of (peers s) p = None"
  shows "handlePeerLeave p (newSession p s) =
     s\<lparr> connections := connections s @ [abandoned p (localStream s)],
        remoteAudiosRef := AList.delete p (remoteAudiosRef s) \<rparr>"
  using assms
  by (simp add: handlePeerLeave_def newSession_def AList.update_conv' delete_update_absent
      close_def abandoned_def freshPeer_def Let_def)

subsection \<open>what a handler sends\<close>

lemma sent_newSession [simp]: "sent (newSession p s) = sent s"
  by (simp add: newSession_def)

lemma sent_setLocalDescription [simp]: "sent (setLocalDescription h d s) = sent s"
  by (simp add: setLocalDescription_def)

lemma sent_setRemoteDescription [simp]: "sent (setRemoteDescription h d s) = sent s"
  by (simp add: setRemoteDescription_def)

lemma sent_drainQueue [simp]: "sent (drainQueue p s) = sent s"
  by (simp add: drainQueue_def drainLoop_eq split: option.split)

lemma sent_handlePeerJoin:
  "\<exists>new. sent (handlePeerJoin P env p n s) = sent s @ new
     \<and> (\<forall>m \<in> set new. msg_type m = Offer \<and> msg_to m = Some p \<and> isAnchor P)"
proof (induction P env p n s rule: handlePeerJoin.induct)
  case (1 P env p n s)
  show ?case
  proof (cases "map_of (peers s) p \<noteq> None \<or> \<not> (isAnchor P \<and> localStream s \<noteq> None)")
    case True
    then show ?thesis by (subst handlePeerJoin_unfold) auto
  next
    case False
    then have m: "map_of (peers s) p = None" and a: "isAnchor P" "localStream s \<noteq> None" by auto
    show ?thesis
    proof (cases "createOffer env n")
      case (Some d)
      with m a show ?thesis
        by (subst handlePeerJoin_unfold) (simp add: sendSignalingMessage_def)
    next
      case None
      show ?thesis
      proof (cases "n < 2")
        case False
        with m a None show ?thesis by (subst handlePeerJoin_unfold) simp
      next
        case True
        have "\<exists>new. sent (handlePeerJoin P env p (n + 1) (handlePeerLeave p (newSession p s)))
                 = sent (handlePeerLeave p (newSession p s)) @ new
              \<and> (\<forall>m \<in> set new. msg_type m = Offer \<and> msg_to m = Some p \<and> isAnchor P)"
          using "1.IH"[OF _ refl refl refl refl _ None True] m a
          by (simp add: fst_createPeerConnection newSession_eq)
        with m a None True show ?thesis by (subst handlePeerJoin_unfold) simp
      qed
    qed
  qed
qed

lemma sent_handleOffer:
  "\<exists>new. sent (handleOffer P env p d s) = sent s @ new
     \<and> (\<forall>m \<in> set new. msg_type m = Answer \<and> msg_to m = Some p)"
  by (auto simp: handleOffer_def Let_def fst_createPeerConnection newSession_eq
      sendSignalingMessage_def split: option.split)

lemma sent_handleAnswer [simp]: "sent (handleAnswer env p d s) = sent s"
  by (simp add: handleAnswer_def split: option.split)

lemma sent_handleIceCandidate [simp]: "sent (handleIceCandidate p c s) = sent s"
  by (simp add: handleIceCandidate_def addIceCandidate_def split: option.split)

lemma sent_step:
  "\<exists>new. sent (step P e s) = sent s @ new
     \<and> (\<forall>m \<in> set new.
           (msg_type m = Offer \<longrightarrow> isAnchor P
              \<and> (\<exists>im ienv. e = Signaling im ienv \<and> msg_type im = Join \<and> msg_to m = Some (msg_from im)))
         \<and> (msg_type m = Answer \<longrightarrow>
                (\<exists>im ienv. e = Signaling im ienv \<and> msg_type im = Offer \<and> msg_to m = Some (msg_from im))))"
proof (cases e)
  case (Signaling im ienv)
  show ?thesis
  proof (cases "signalingChannel s \<and> msg_from im \<noteq> userId P")
    case False
    with Signaling show ?thesis by (auto simp: handleSignalingMessage_def)
  next
    case True
    show ?thesis
    proof (cases "msg_type im")
      case Offer
      with sent_handleOffer[of P ienv "msg_from im" "msg_data im" s] True Signaling
      show ?thesis by (auto simp: handleSignalingMessage_def)
    next
      case Join
      with sent_handlePeerJoin[of P ienv "msg_from im" 0 s] True Signaling
      show ?thesis by (auto simp: handleSignalingMessage_def)
    qed (use True Signaling in \<open>simp_all add: handleSignalingMessage_def\<close>)
  qed
next
  case (JoinCall g)
  then show ?thesis
    by (auto simp: joinCall_def Let_def sendSignalingMessage_def split: option.split)
next
  case LeaveCall
  then show ?thesis
    by (auto simp: leaveCall_def Let_def sendSignalingMessage_def split: option.split)
next
  case ToggleMute
  then show ?thesis by (simp add: toggleMute_def split: option.split list.split)
next
  case (OnIceCandidate h c)
  then show ?thesis by (auto simp: onicecandidate_def sendSignalingMessage_def split: option.split)
next
  case (OnTrack h r)
  then show ?thesis by (simp add: ontrack_def Let_def split: option.split)
next
  case (OnConnectionStateChange h st r)
  then show ?thesis by (simp add: onconnectionstatechange_def Let_def)
next
  case (DisconnectTimer h)
  then show ?thesis by (simp add: disconnectTimer_def)
qed

lemma no_offer_step:
  assumes "\<not> isAnchor P"
  shows "filter (\<lambda>m. msg_type m = Offer) (sent (step P e s)) = filter (\<lambda>m. msg_type m = Offer) (sent s)"
proof -
  from sent_step[of P e s] obtain new where
    n: "sent (step P e s) = sent s @ new" "\<forall>m \<in> set new. msg_type m = Offer \<longrightarrow> isAnchor P"
    by blast
  with assms have "filter (\<lambda>m. msg_type m = Offer) new = []" by (auto simp: filter_empty_conv)
  with n show ?thesis by simp
qed

lemma no_offer_run:
  "\<not> isAnchor P \<Longrightarrow>
   filter (\<lambda>m. msg_type m = Offer) (sent (run P es s)) = filter (\<lambda>m. msg_type m = Offer) (sent s)"
  by (induction es arbitrary: s) (simp_all add: no_offer_step)

subsection \<open>entries that appear and disappear\<close>


lemma peers_setLocalDescription [simp]: "peers (setLocalDescription h d s) = peers s"
  by (simp add: setLocalDescription_def)

lemma peers_send [simp]: "peers (sendSignalingMessage P t d target s) = peers s"
  by (simp add: sendSignalingMessage_def)







subsection \<open>a callback of the render that has seen the state\<close>

lemma closure_fields [simp]:
  "isInCall_c (closure s) = isInCall s"
  "localStream_c (closure s) = localStream s"
  "peers_c (closure s) = peers s"
  by (simp_all add: closure_def)

lemma createPeerConnection_c_fresh:
  "createPeerConnection_c (closure s) p s = createPeerConnection p s"
  by (simp add: createPeerConnection_c_def createPeerConnection_def closure_def)

lemma createPeerConnection_c_stream:
  "localStream_c c = localStream s \<Longrightarrow> createPeerConnection_c c p s = createPeerConnection p s"
  by (simp add: createPeerConnection_c_def createPeerConnection_def)

lemma handlePeerJoin_c_agree:
  "(map_of (peers_c c) p = None) = (map_of (peers s) p = None) \<Longrightarrow> localStream_c c = localStream s
   \<Longrightarrow> handlePeerJoin_c c P env p n s = handlePeerJoin P env p n s"
proof (induction P env p n s rule: handlePeerJoin.induct)
  case (1 P env p n s)
  note cp = createPeerConnection_c_stream[OF "1.prems"(2)]
  show ?case
  proof (cases "map_of (peers s) p")
    case (Some pc)
    with "1.prems" show ?thesis
      by (subst handlePeerJoin_c.simps, subst handlePeerJoin_unfold) auto
  next
    case None
    with "1.prems" have cn: "map_of (peers_c c) p = None" by simp
    show ?thesis
    proof (cases "isAnchor P \<and> localStream s \<noteq> None \<and> createOffer env n = None \<and> n < 2")
      case False
      with None cn "1.prems"(2) show ?thesis
        by (subst handlePeerJoin_c.simps, subst handlePeerJoin_unfold)
           (auto simp: Let_def cp fst_createPeerConnection newSession_eq split: option.split)
    next
      case True
      have ls: "localStream (newSession p s) = localStream s" by (simp add: newSession_def)
      have "handlePeerJoin_c c P env p (n + 1) (handlePeerLeave p (newSession p s))
            = handlePeerJoin P env p (n + 1) (handlePeerLeave p (newSession p s))"
        using "1.IH"[OF _ refl refl refl refl] None True cn "1.prems"(2)
        by (simp add: fst_createPeerConnection newSession_eq AList.delete_conv' ls)
      with None cn True "1.prems"(2) show ?thesis
        by (subst handlePeerJoin_c.simps, subst handlePeerJoin_unfold)
           (simp add: Let_def cp fst_createPeerConnection newSession_eq)
    qed
  qed
qed

lemma handlePeerJoin_c_fresh: "handlePeerJoin_c (closure s) P env p n s = handlePeerJoin P env p n s"
  by (rule handlePeerJoin_c_agree) simp_all

lemma handleOffer_c_fresh: "handleOffer_c (closure s) P env p d s = handleOffer P env p d s"
  by (simp add: handleOffer_c_def handleOffer_def createPeerConnection_c_fresh)

lemma leaveCall_c_fresh: "leaveCall_c (closure s) P s = leaveCall P s"
  by (simp add: leaveCall_c_def leaveCall_def Let_def sendSignalingMessage_def
      split: option.split)

subsection \<open>evaluating the handlers on the example inputs\<close>

lemmas ex_defs = exAnchor_def exAudience_def exSucceeds_def exFails_def exMessage_def exMicrophone_def

lemmas run_defs = initialState_def handleSignalingMessage_def handlePeerJoin_unfold handleOffer_def
  handleAnswer_def handleIceCandidate_def handlePeerLeave_def joinCall_def leaveCall_def
  toggleMute_def sendSignalingMessage_def createPeerConnection_def setLocalDescription_def
  setRemoteDescription_def addIceCandidate_def drainQueue_def close_def newSession_def
  freshConnection_def freshPeer_def connectedPeers_def Let_def

lemmas closure_defs = exStale_def exJoined_def exDuplicated_def exListeningStale_def closure_def
  handlePeerJoin_c.simps handleOffer_c_def leaveCall_c_def unmount_def createPeerConnection_c_def

section \<open>Properties\<close>

subsection \<open>Sessions\<close>

text \<open>
  C1. The guard \<^verbatim>\<open>peers.has(peerId)\<close> of \<^verbatim>\<open>handlePeerJoin\<close> and \<^verbatim>\<open>handleOffer\<close> is
  meant to drop a \<^verbatim>\<open>join\<close> or an \<^verbatim>\<open>offer\<close> from a peer that has a session, and
  misses when the callback is older than the session. The hook of \<^verbatim>\<open>bob\<close> handles
  the \<^verbatim>\<open>join\<close> of \<^verbatim>\<open>alice\<close> and then her \<^verbatim>\<open>offer\<close> with the callbacks of the
  render it mounted with. The \<^verbatim>\<open>join\<close> opens a connection and an entry for
  \<^verbatim>\<open>alice\<close>. The \<^verbatim>\<open>offer\<close> passes the guard, because the \<^verbatim>\<open>peers\<close> of that render
  is still empty: a second connection is opened for \<^verbatim>\<open>alice\<close>, her entry is replaced by
  one that refers to it, the first connection stays open with no entry referring to it,
  and an \<^verbatim>\<open>answer\<close> is sent. The callback of a render that has seen the entry leaves
  the state as it is on the same \<^verbatim>\<open>offer\<close>.
\<close>

theorem stale_guard_opens_second_session:
  "connectedPeers exJoined = [''alice'']
   \<and> map remotePeer (connections exJoined) = [''alice'']
   \<and> map_of (peers_c exStale) ''alice'' = None
   \<and> exDuplicated \<noteq> exJoined
   \<and> connectedPeers exDuplicated = [''alice'']
   \<and> map remotePeer (connections exDuplicated) = [''alice'', ''alice'']
   \<and> map connectionState (connections exDuplicated) = [StNew, StNew]
   \<and> map_of (peers exDuplicated) ''alice'' = Some (freshPeer ''alice'' 1)
   \<and> sent exDuplicated = [exMessage Answer (SessionDescription ''answer'') ''bob'' (Some ''alice'')]
   \<and> handleOffer_c (closure exJoined) exAudience exSucceeds ''alice'' (SessionDescription ''o'') exJoined
       = exJoined"
  by (simp add: closure_defs ex_defs run_defs)

subsection \<open>Candidates\<close>



subsection \<open>Addressing\<close>

text \<open>
  C3. The claim has a recipient ignore a message whose \<^verbatim>\<open>to\<close> names somebody else.
  \<^verbatim>\<open>handleSignalingMessage\<close> never reads \<^verbatim>\<open>to\<close>: here \<^verbatim>\<open>bob\<close> receives an
  \<^verbatim>\<open>offer\<close> that \<^verbatim>\<open>alice\<close> addressed to \<^verbatim>\<open>carol\<close>, opens a session with
  \<^verbatim>\<open>alice\<close> and answers her. The other half of the claim holds: a message whose
  \<^verbatim>\<open>from\<close> is the local user changes nothing.
\<close>

theorem message_for_another_is_processed:
  "msg_to (exMessage Offer (SessionDescription ''o'') ''alice'' (Some ''carol'')) = Some ''carol''
   \<and> userId exAudience = ''bob''
   \<and> connectedPeers (initialState exAudience) = []
   \<and> connectedPeers (step exAudience
        (Signaling (exMessage Offer (SessionDescription ''o'') ''alice'' (Some ''carol'')) exSucceeds)
        (initialState exAudience)) = [''alice'']
   \<and> sent (step exAudience
        (Signaling (exMessage Offer (SessionDescription ''o'') ''alice'' (Some ''carol'')) exSucceeds)
        (initialState exAudience))
       = [exMessage Answer (SessionDescription ''answer'') ''bob'' (Some ''alice'')]
   \<and> step exAudience
        (Signaling (exMessage Offer (SessionDescription ''o'') ''bob'' (Some ''carol'')) exSucceeds)
        (initialState exAudience) = initialState exAudience"
  by (simp add: ex_defs run_defs)

subsection \<open>Offers\<close>

text \<open>
  C4. The role check is the only policy the hook has, so this is about every execution.
  A participant with \<^verbatim>\<open>isAnchor = false\<close> never sends an \<^verbatim>\<open>offer\<close>, whatever events
  it processes. For every participant and every single event, what was sent before stays
  sent, an \<^verbatim>\<open>offer\<close> that the event adds comes from an anchor handling an inbound
  \<^verbatim>\<open>join\<close> and is addressed to the peer that joined, and an \<^verbatim>\<open>answer\<close> that the
  event adds comes from handling an inbound \<^verbatim>\<open>offer\<close> and is addressed to the peer
  that offered.
\<close>

theorem receiver_never_offers:
  "(\<not> isAnchor P \<longrightarrow> (\<forall>m \<in> set (sent (run P es (initialState P))). msg_type m \<noteq> Offer))
   \<and> take (length (sent s)) (sent (step P e s)) = sent s
   \<and> (\<forall>m \<in> set (drop (length (sent s)) (sent (step P e s))).
         (msg_type m = Offer \<longrightarrow> isAnchor P
            \<and> (\<exists>im ienv. e = Signaling im ienv \<and> msg_type im = Join \<and> msg_to m = Some (msg_from im)))
       \<and> (msg_type m = Answer \<longrightarrow>
            (\<exists>im ienv. e = Signaling im ienv \<and> msg_type im = Offer \<and> msg_to m = Some (msg_from im))))"
proof -
  have run: "\<not> isAnchor P \<longrightarrow> (\<forall>m \<in> set (sent (run P es (initialState P))). msg_type m \<noteq> Offer)"
  proof (intro impI)
    assume "\<not> isAnchor P"
    then have "filter (\<lambda>m. msg_type m = Offer) (sent (run P es (initialState P))) = []"
      by (simp add: no_offer_run initialState_def)
    then show "\<forall>m \<in> set (sent (run P es (initialState P))). msg_type m \<noteq> Offer"
      by (simp add: filter_empty_conv)
  qed
  from sent_step[of P e s] obtain new where
    n: "sent (step P e s) = sent s @ new"
    and q: "\<forall>m \<in> set new.
           (msg_type m = Offer \<longrightarrow> isAnchor P
              \<and> (\<exists>im ienv. e = Signaling im ienv \<and> msg_type im = Join \<and> msg_to m = Some (msg_from im)))
         \<and> (msg_type m = Answer \<longrightarrow>
                (\<exists>im ienv. e = Signaling im ienv \<and> msg_type im = Offer \<and> msg_to m = Some (msg_from im)))"
    by blast
  from n have "take (length (sent s)) (sent (step P e s)) = sent s"
    and "drop (length (sent s)) (sent (step P e s)) = new" by simp_all
  with run q show ?thesis by simp
qed

theorem receiver_never_offers_witness:
  "\<not> isAnchor exAudience
   \<and> sent (run exAudience exListening (initialState exAudience))
       = [exMessage Join (JoinData False) ''bob'' None]
   \<and> connectedPeers (run exAudience exListening (initialState exAudience)) = [''alice'']
   \<and> sent (run exAudience (exListening @
          [Signaling (exMessage Leave EmptyObject ''alice'' None) exSucceeds,
           Signaling (exMessage Offer (SessionDescription ''o'') ''alice'' (Some ''bob'')) exSucceeds])
          (initialState exAudience))
       = [exMessage Join (JoinData False) ''bob'' None,
          exMessage Answer (SessionDescription ''answer'') ''bob'' (Some ''alice'')]
   \<and> drop (length (sent (initialState exAudience)))
        (sent (step exAudience
           (Signaling (exMessage Offer (SessionDescription ''o'') ''alice'' (Some ''bob'')) exSucceeds)
           (initialState exAudience)))
       = [exMessage Answer (SessionDescription ''answer'') ''bob'' (Some ''alice'')]"
  using receiver_never_offers[of exAudience "exListening @
          [Signaling (exMessage Leave EmptyObject ''alice'' None) exSucceeds,
           Signaling (exMessage Offer (SessionDescription ''o'') ''alice'' (Some ''bob'')) exSucceeds]"
          "initialState exAudience"
          "Signaling (exMessage Offer (SessionDescription ''o'') ''alice'' (Some ''bob'')) exSucceeds"]
  by (simp add: exListening_def ex_defs run_defs)

text \<open>
  C5, as the code has it. An anchor with a local stream handles the \<^verbatim>\<open>join\<close> of a peer
  that has no entry. Each attempt opens a connection and an entry; an attempt whose offer
  cannot be created closes the connection and removes the entry, and up to two more
  attempts follow. When the third attempt fails too, three closed connections are all
  that is left: \<^verbatim>\<open>peers\<close> is as before, nothing was sent, and \<^verbatim>\<open>error\<close> is as
  before, since the failure is only logged. When the second or the third attempt
  succeeds, the entry of the peer refers to the connection of that attempt, which carries
  the offer.
\<close>

theorem offer_retry_then_abandon:
  assumes "isAnchor P" "localStream s \<noteq> None" "map_of (peers s) p = None"
  shows
   "(createOffer env 0 = None \<and> createOffer env 1 = None \<and> createOffer env 2 = None \<longrightarrow>
       handlePeerJoin P env p 0 s =
         s\<lparr> connections := connections s @ replicate 3 (abandoned p (localStream s)),
            remoteAudiosRef := AList.delete p (remoteAudiosRef s) \<rparr>
     \<and> peers (handlePeerJoin P env p 0 s) = peers s
     \<and> connectedPeers (handlePeerJoin P env p 0 s) = connectedPeers s
     \<and> sent (handlePeerJoin P env p 0 s) = sent s
     \<and> error (handlePeerJoin P env p 0 s) = error s)
  \<and> (createOffer env 0 = None \<and> createOffer env 1 = None \<and> createOffer env 2 = Some d \<longrightarrow>
       connections (handlePeerJoin P env p 0 s) =
         connections s @ replicate 2 (abandoned p (localStream s))
           @ [(freshConnection p (localStream s))\<lparr> localDescription := Some d \<rparr>]
     \<and> map_of (peers (handlePeerJoin P env p 0 s)) p = Some (freshPeer p (length (connections s) + 2)))
  \<and> (createOffer env 0 = None \<and> createOffer env 1 = Some d \<longrightarrow>
       connections (handlePeerJoin P env p 0 s) =
         connections s @ [abandoned p (localStream s),
                          (freshConnection p (localStream s))\<lparr> localDescription := Some d \<rparr>]
     \<and> map_of (peers (handlePeerJoin P env p 0 s)) p = Some (freshPeer p (length (connections s) + 1)))"
proof -
  let ?a = "abandoned p (localStream s)"
  have all: "createOffer env 0 = None \<and> createOffer env 1 = None \<and> createOffer env 2 = None \<longrightarrow>
       handlePeerJoin P env p 0 s =
         s\<lparr> connections := connections s @ replicate 3 ?a,
            remoteAudiosRef := AList.delete p (remoteAudiosRef s) \<rparr>"
    using assms
    by (simp add: handlePeerJoin_unfold abandon_newSession numeral_2_eq_2 numeral_3_eq_3
        AList.delete_idem)
  have third: "createOffer env 0 = None \<and> createOffer env 1 = None \<and> createOffer env 2 = Some d \<longrightarrow>
       connections (handlePeerJoin P env p 0 s) =
         connections s @ replicate 2 ?a @ [(freshConnection p (localStream s))\<lparr> localDescription := Some d \<rparr>]
     \<and> map_of (peers (handlePeerJoin P env p 0 s)) p = Some (freshPeer p (length (connections s) + 2))"
    using assms
    by (simp add: handlePeerJoin_unfold abandon_newSession numeral_2_eq_2)
       (simp add: sendSignalingMessage_def setLocalDescription_def newSession_def
          AList.update_conv' nth_append list_update_append)
  have second: "createOffer env 0 = None \<and> createOffer env 1 = Some d \<longrightarrow>
       connections (handlePeerJoin P env p 0 s) =
         connections s @ [?a, (freshConnection p (localStream s))\<lparr> localDescription := Some d \<rparr>]
     \<and> map_of (peers (handlePeerJoin P env p 0 s)) p = Some (freshPeer p (length (connections s) + 1))"
    using assms
    by (simp add: handlePeerJoin_unfold abandon_newSession numeral_2_eq_2)
       (simp add: sendSignalingMessage_def setLocalDescription_def newSession_def
          AList.update_conv' nth_append list_update_append)
  from all second third show ?thesis by (simp add: connectedPeers_def)
qed

theorem offer_retry_then_abandon_witness:
  "isAnchor exAnchor \<and> localStream exInCall = Some 0 \<and> map_of (peers exInCall) ''bob'' = None
   \<and> createOffer (exFailsFirst 3) 0 = None \<and> createOffer (exFailsFirst 3) 1 = None
   \<and> createOffer (exFailsFirst 3) 2 = None
   \<and> connections (handlePeerJoin exAnchor (exFailsFirst 3) ''bob'' 0 exInCall)
       = replicate 3 (abandoned ''bob'' (Some 0))
   \<and> peers (handlePeerJoin exAnchor (exFailsFirst 3) ''bob'' 0 exInCall) = []
   \<and> sent (handlePeerJoin exAnchor (exFailsFirst 3) ''bob'' 0 exInCall) = sent exInCall
   \<and> error (handlePeerJoin exAnchor (exFailsFirst 3) ''bob'' 0 exInCall) = []
   \<and> createOffer (exFailsFirst 2) 2 = Some (SessionDescription ''offer'')
   \<and> map_of (peers (handlePeerJoin exAnchor (exFailsFirst 2) ''bob'' 0 exInCall)) ''bob''
       = Some (freshPeer ''bob'' 2)
   \<and> createOffer (exFailsFirst 1) 1 = Some (SessionDescription ''offer'')
   \<and> map_of (peers (handlePeerJoin exAnchor (exFailsFirst 1) ''bob'' 0 exInCall)) ''bob''
       = Some (freshPeer ''bob'' 1)"
proof -
  have a: "isAnchor exAnchor" by (simp add: exAnchor_def)
  have l: "localStream exInCall = Some 0" by (simp add: exInCall_def ex_defs run_defs)
  then have l': "localStream exInCall \<noteq> None" by simp
  have m: "map_of (peers exInCall) ''bob'' = None" by (simp add: exInCall_def ex_defs run_defs)
  have c: "connections exInCall = []" "peers exInCall = []" "error exInCall = []"
    by (simp_all add: exInCall_def ex_defs run_defs)
  show ?thesis
    using offer_retry_then_abandon[OF a l' m, of "exFailsFirst 3" "SessionDescription ''offer''"]
          offer_retry_then_abandon[OF a l' m, of "exFailsFirst 2" "SessionDescription ''offer''"]
          offer_retry_then_abandon[OF a l' m, of "exFailsFirst 1" "SessionDescription ''offer''"]
          a l m c
    by (simp add: exFailsFirst_def numeral_2_eq_2)
qed

text \<open>
  The claim as it was written has the failure reach the caller. Here all three attempts
  fail for an anchor in a call, and everything the hook returns to its caller
  (\<^verbatim>\<open>error\<close>, \<^verbatim>\<open>connectedPeers\<close>, \<^verbatim>\<open>isInCall\<close>, \<^verbatim>\<open>isMuted\<close>,
  \<^verbatim>\<open>isConnecting\<close>) is what it was before the \<^verbatim>\<open>join\<close> arrived.
\<close>

theorem offer_failure_not_surfaced:
  "createOffer exFails 0 = None \<and> createOffer exFails 1 = None \<and> createOffer exFails 2 = None
   \<and> isInCall exInCall \<and> error exInCall = [] \<and> connectedPeers exInCall = []
   \<and> error (step exAnchor (Signaling (exMessage Join (JoinData False) ''bob'' None) exFails) exInCall) = []
   \<and> connectedPeers (step exAnchor (Signaling (exMessage Join (JoinData False) ''bob'' None) exFails) exInCall) = []
   \<and> isInCall (step exAnchor (Signaling (exMessage Join (JoinData False) ''bob'' None) exFails) exInCall)
   \<and> \<not> isMuted (step exAnchor (Signaling (exMessage Join (JoinData False) ''bob'' None) exFails) exInCall)
   \<and> \<not> isConnecting (step exAnchor (Signaling (exMessage Join (JoinData False) ''bob'' None) exFails) exInCall)
   \<and> map connectionState (connections
         (step exAnchor (Signaling (exMessage Join (JoinData False) ''bob'' None) exFails) exInCall))
       = [StClosed, StClosed, StClosed]"
  by (simp add: exInCall_def ex_defs run_defs)

text \<open>
  C8, as the code has it. \<^verbatim>\<open>useVoiceCall\<close> has no policy flag: its parameters are the
  room, the user and \<^verbatim>\<open>isAnchor\<close>. Whatever its callbacks read and whatever the
  platform answers, a hook with \<^verbatim>\<open>isAnchor = false\<close> sends nothing when a peer joins;
  and whether the \<^verbatim>\<open>join\<close> of a peer that the callback does not know is answered with
  an \<^verbatim>\<open>offer\<close> is the test \<^verbatim>\<open>isAnchor && localStream\<close> and nothing else.
\<close>

theorem offer_policy_is_the_role_check:
  "(\<not> isAnchor P \<longrightarrow> sent (handlePeerJoin_c c P env p n s) = sent s)
   \<and> (map_of (peers_c c) p = None \<and> signalingChannel s \<and> createOffer env 0 = Some d \<longrightarrow>
        sent (handlePeerJoin_c c P env p 0 s) =
          (if isAnchor P \<and> localStream_c c \<noteq> None
           then sent s @ [\<lparr> msg_type = Offer, msg_data = d, msg_from = userId P, msg_to = Some p,
                            room_id = roomId P \<rparr>]
           else sent s))"
proof -
  have audience: "\<not> isAnchor P \<longrightarrow> sent (handlePeerJoin_c c P env p n s) = sent s"
    by (subst handlePeerJoin_c.simps) (simp add: Let_def createPeerConnection_c_def)
  have role: "map_of (peers_c c) p = None \<and> signalingChannel s \<and> createOffer env 0 = Some d \<longrightarrow>
        sent (handlePeerJoin_c c P env p 0 s) =
          (if isAnchor P \<and> localStream_c c \<noteq> None
           then sent s @ [\<lparr> msg_type = Offer, msg_data = d, msg_from = userId P, msg_to = Some p,
                            room_id = roomId P \<rparr>]
           else sent s)"
    by (subst handlePeerJoin_c.simps)
       (auto simp: Let_def createPeerConnection_c_def sendSignalingMessage_def setLocalDescription_def)
  from audience role show ?thesis by blast
qed

theorem offer_policy_is_the_role_check_witness:
  "\<not> isAnchor exAudience
   \<and> sent (handlePeerJoin_c (closure (initialState exAudience)) exAudience exSucceeds ''alice'' 0
         (initialState exAudience)) = []
   \<and> map_of (peers_c (closure exInCall)) ''bob'' = None \<and> signalingChannel exInCall
   \<and> createOffer exSucceeds 0 = Some (SessionDescription ''offer'')
   \<and> isAnchor exAnchor \<and> localStream_c (closure exInCall) \<noteq> None
   \<and> sent (handlePeerJoin_c (closure exInCall) exAnchor exSucceeds ''bob'' 0 exInCall)
       = sent exInCall @ [exMessage Offer (SessionDescription ''offer'') ''alice'' (Some ''bob'')]"
proof -
  have m: "map_of (peers_c (closure exInCall)) ''bob'' = None" "signalingChannel exInCall"
    "localStream_c (closure exInCall) \<noteq> None"
    by (simp_all add: exInCall_def ex_defs run_defs)
  show ?thesis
    using offer_policy_is_the_role_check[of exAudience "closure (initialState exAudience)" exSucceeds
            "''alice''" 0 "initialState exAudience" "SessionDescription ''offer''"]
          offer_policy_is_the_role_check[of exAnchor "closure exInCall" exSucceeds
            "''bob''" 0 exInCall "SessionDescription ''offer''"]
          m
    by (simp add: ex_defs initialState_def)
qed

text \<open>
  The claim as it was written has a configuration of this coordinator in which every
  participant offers to every other. An audience member that is in the call sees another
  participant join and sends nothing but its own \<^verbatim>\<open>join\<close>; the record \<open>Props\<close> has no
  field that would change this.
\<close>

theorem audience_never_offers_to_a_joining_peer:
  "\<not> isAnchor exAudience
   \<and> isInCall (run exAudience exListening (initialState exAudience))
   \<and> map msg_type (sent (run exAudience
        (exListening @ [Signaling (exMessage Join (JoinData False) ''carol'' None) exSucceeds])
        (initialState exAudience))) = [Join]
   \<and> connectedPeers (run exAudience
        (exListening @ [Signaling (exMessage Join (JoinData False) ''carol'' None) exSucceeds])
        (initialState exAudience)) = [''alice'', ''carol'']"
  by (simp add: exListening_def ex_defs run_defs)

subsection \<open>Leaving and joining\<close>

text \<open>
  C6. \<^verbatim>\<open>leaveCall()\<close> called during a call does not always release the call. The
  anchor \<^verbatim>\<open>alice\<close> is in a call with \<^verbatim>\<open>bob\<close> when the component unmounts: the
  cleanup calls the \<^verbatim>\<open>leaveCall\<close> of the first render, for which \<^verbatim>\<open>isInCall\<close> is
  false, and nothing changes: the entry of \<^verbatim>\<open>bob\<close> stays, his connection stays open,
  the local stream is kept and its track is live. And \<^verbatim>\<open>bob\<close>, listening, with the
  second connection that the older callback opened for \<^verbatim>\<open>alice\<close> (C1), calls the
  \<^verbatim>\<open>leaveCall\<close> of the latest render: \<^verbatim>\<open>peers\<close> is emptied and the connection of the
  entry is closed, the first connection stays open.
\<close>

theorem unmount_leaves_the_call_running:
  "isInCall (run exAnchor exAnswered (initialState exAnchor))
   \<and> connectedPeers (run exAnchor exAnswered (initialState exAnchor)) = [''bob'']
   \<and> unmount exAnchor (run exAnchor exAnswered (initialState exAnchor))
       = run exAnchor exAnswered (initialState exAnchor)
   \<and> connectedPeers (unmount exAnchor (run exAnchor exAnswered (initialState exAnchor))) = [''bob'']
   \<and> map connectionState (connections (unmount exAnchor (run exAnchor exAnswered (initialState exAnchor))))
       = [StNew]
   \<and> localStream (unmount exAnchor (run exAnchor exAnswered (initialState exAnchor))) = Some 0
   \<and> map ended (streams (unmount exAnchor (run exAnchor exAnswered (initialState exAnchor))) ! 0) = [False]
   \<and> isInCall exListeningStale
   \<and> peers (leaveCall_c (closure exListeningStale) exAudience exListeningStale) = []
   \<and> map connectionState (connections (leaveCall_c (closure exListeningStale) exAudience exListeningStale))
       = [StNew, StClosed]"
  by (simp add: closure_defs exAnswered_def exQueueing_def ex_defs run_defs)

text \<open>
  C7. When an anchor outside a call calls \<^verbatim>\<open>joinCall()\<close> and \<^verbatim>\<open>getUserMedia\<close>
  rejects, the only change is that \<^verbatim>\<open>error\<close> holds the microphone message: the
  participant is not in the call, no entry or connection is created, no local stream is
  held, and nothing is sent.
\<close>

theorem joinCall_media_denied:
  "isAnchor P \<and> \<not> isInCall s \<and> \<not> isConnecting s \<longrightarrow>
     joinCall P None s
       = s\<lparr> error := ''Failed to access microphone. Please check your permissions.'' \<rparr>
   \<and> error (joinCall P None s) \<noteq> []
   \<and> \<not> isInCall (joinCall P None s)
   \<and> peers (joinCall P None s) = peers s
   \<and> connectedPeers (joinCall P None s) = connectedPeers s
   \<and> connections (joinCall P None s) = connections s
   \<and> localStream (joinCall P None s) = localStream s
   \<and> sent (joinCall P None s) = sent s"
  by (simp add: joinCall_def connectedPeers_def)

theorem joinCall_media_denied_witness:
  "isAnchor exAnchor \<and> \<not> isInCall (initialState exAnchor) \<and> \<not> isConnecting (initialState exAnchor)
   \<and> error (joinCall exAnchor None (initialState exAnchor))
       = ''Failed to access microphone. Please check your permissions.''
   \<and> \<not> isInCall (joinCall exAnchor None (initialState exAnchor))
   \<and> connectedPeers (joinCall exAnchor None (initialState exAnchor)) = []
   \<and> connections (joinCall exAnchor None (initialState exAnchor)) = []
   \<and> sent (joinCall exAnchor None (initialState exAnchor)) = []"
  using joinCall_media_denied[of exAnchor "initialState exAnchor"]
  by (simp add: exAnchor_def initialState_def connectedPeers_def)

subsection \<open>What the caller sees\<close>

text \<open>
  C9. \<^verbatim>\<open>toggleMute()\<close> leaves \<^verbatim>\<open>connectedPeers\<close> as it was, in every state: it
  changes nothing but the \<^verbatim>\<open>enabled\<close> flag of a local track and \<^verbatim>\<open>isMuted\<close>; no
  peer entry is added or removed, no connection is created, closed or renegotiated,
  nothing is sent, and no stream is added and no track is stopped.
\<close>

theorem toggleMute_frame:
  "connectedPeers (toggleMute P s) = connectedPeers s
   \<and> peers (toggleMute P s) = peers s
   \<and> connections (toggleMute P s) = connections s
   \<and> sent (toggleMute P s) = sent s
   \<and> localStream (toggleMute P s) = localStream s
   \<and> isInCall (toggleMute P s) = isInCall s
   \<and> remoteAudiosRef (toggleMute P s) = remoteAudiosRef s
   \<and> error (toggleMute P s) = error s
   \<and> length (streams (toggleMute P s)) = length (streams s)
   \<and> map (map ended) (streams (toggleMute P s)) = map (map ended) (streams s)"
proof -
  have "map (map ended) (streams (toggleMute P s)) = map (map ended) (streams s)"
  proof (cases "localStream s")
    case None
    then show ?thesis by (simp add: toggleMute_def)
  next
    case (Some l)
    show ?thesis
    proof (cases "isAnchor P \<and> l < length (streams s)")
      case False
      with Some show ?thesis
        by (auto simp: toggleMute_def list_update_beyond split: list.split)
    next
      case True
      with Some show ?thesis
        by (cases "streams s ! l")
           (simp_all add: toggleMute_def map_update list_update_same_conv)
    qed
  qed
  then show ?thesis
    by (simp add: toggleMute_def connectedPeers_def split: option.split list.split)
qed




end
